theory Spec2Isabelle
  imports Complex_Main "HOL-Library.Log_Nat"
begin

section \<open>Data model\<close>

text \<open>
  The models of \<^verbatim>\<open>src/app.py\<close> that the ledger logic reads. Columns the modelled
  functions never read (timestamps, notes, display metadata) are left out. The
  \<^verbatim>\<open>Float\<close> columns hold amounts of money; they are modelled as real numbers. Where
  a property depends on how the machine rounds a sum (the category breakdown of the
  dashboard), the addition is a parameter of the model. Strings are ASCII text.
\<close>

record date =
  year :: nat
  month :: nat
  day :: nat

record bill =
  b_id :: nat
  bill_number :: "string option"
  purchase_date :: date
  total_amount :: real
  user_id :: nat

record fertilizer =
  f_name :: string
  price :: real
  category :: string
  bill_id :: "nat option"

text \<open>
  The part of the database a request sees through its session: the two tables, in
  insertion order.
\<close>

record store =
  bills :: "bill list"
  fertilizers :: "fertilizer list"

section \<open>Bill totals\<close>

text \<open>Python's \<^verbatim>\<open>sum\<close>: start from 0 and add the elements from left to right.\<close>

definition py_sum :: "real list \<Rightarrow> real" where
  "py_sum xs = foldl (+) 0 xs"

text \<open>
  \<^verbatim>\<open>Bill.calculate_total\<close>. The argument is what reading \<^verbatim>\<open>self.fertilizers\<close>
  gives: \<open>Some\<close> of the line items, or \<open>None\<close> when the read raises, which the
  bare \<^verbatim>\<open>except\<close> turns into a total of 0.0.
\<close>

definition calculate_total :: "fertilizer list option \<Rightarrow> bill \<Rightarrow> bill" where
  "calculate_total items b =
     (case items of
        Some fs \<Rightarrow> b\<lparr>total_amount := py_sum (map price fs)\<rparr>
      | None \<Rightarrow> b\<lparr>total_amount := 0\<rparr>)"

text \<open>
  The relationship \<^verbatim>\<open>Bill.fertilizers\<close>: the rows of the fertilizer table whose
  foreign key is the bill's id.
\<close>

definition fertilizers_of :: "store \<Rightarrow> nat \<Rightarrow> fertilizer list" where
  "fertilizers_of s i = filter (\<lambda>f. bill_id f = Some i) (fertilizers s)"

text \<open>
  \<^verbatim>\<open>bill.calculate_total()\<close> on a bill that lives in the session: the bill with that
  id gets its total recomputed from its rows.
\<close>

definition recompute :: "nat \<Rightarrow> store \<Rightarrow> store" where
  "recompute i s =
     s\<lparr>bills := map (\<lambda>b. if b_id b = i then calculate_total (Some (fertilizers_of s i)) b else b)
                     (bills s)\<rparr>"

section \<open>CSV import\<close>

definition FERTILIZER_CATEGORIES :: "(string \<times> string) list" where
  "FERTILIZER_CATEGORIES =
     [(''Urea'', ''Urea''),
      (''DAP'', ''DAP (Di-Ammonium Phosphate)''),
      (''NPK'', ''NPK Complex''),
      (''MOP'', ''MOP (Muriate of Potash)''),
      (''SSP'', ''SSP (Single Super Phosphate)''),
      (''Organic'', ''Organic Fertilizer''),
      (''Micronutrients'', ''Micronutrients''),
      (''Liquid'', ''Liquid Fertilizer'')]"

text \<open>\<^verbatim>\<open>str.strip()\<close> on ASCII text: the whitespace characters are 9..13, 28..31 and 32.\<close>

definition is_space :: "char \<Rightarrow> bool" where
  "is_space c = (let n = (of_char c :: nat) in (9 \<le> n \<and> n \<le> 13) \<or> (28 \<le> n \<and> n \<le> 32))"

definition strip :: "string \<Rightarrow> string" where
  "strip s = rev (dropWhile is_space (rev (dropWhile is_space s)))"

text \<open>
  \<^verbatim>\<open>row[4].replace('\<dots>', '').replace(',', '').strip()\<close>: the first \<^verbatim>\<open>replace\<close>
  deletes the rupee sign, which is not an ASCII character and so does not occur in a
  field of the model; the second deletes every comma.
\<close>

definition clean_price :: "string \<Rightarrow> string" where
  "clean_price s = strip (filter (\<lambda>c. c \<noteq> CHR '','') s)"

text \<open>\<^verbatim>\<open>str(date)\<close>: ISO format, zero padded.\<close>

definition digit_char :: "nat \<Rightarrow> char" where
  "digit_char n = char_of (48 + n mod 10)"

fun zero_padded :: "nat \<Rightarrow> nat \<Rightarrow> string" where
  "zero_padded 0 n = []"
| "zero_padded (Suc w) n = zero_padded w (n div 10) @ [digit_char n]"

definition isoformat :: "date \<Rightarrow> string" where
  "isoformat d = zero_padded 4 (year d) @ ''-'' @ zero_padded 2 (month d) @ ''-'' @ zero_padded 2 (day d)"

text \<open>
  What the import takes from the Python runtime and the request:
  \<open>to_float\<close> is the builtin \<^verbatim>\<open>float\<close> on a string (\<open>None\<close> when it raises
  \<^verbatim>\<open>ValueError\<close>), \<open>to_date\<close> is \<^verbatim>\<open>datetime.strptime(s, '%Y-%m-%d').date()\<close>
  (\<open>None\<close> when it raises \<^verbatim>\<open>ValueError\<close>), \<open>today\<close> is
  \<^verbatim>\<open>datetime.now().date()\<close> and \<open>current_user\<close> is \<^verbatim>\<open>current_user.id\<close>.
  The export takes \<open>format_2f\<close>, the format \<^verbatim>\<open>f'{x:.2f}'\<close>, and \<open>strftime\<close>,
  which is \<^verbatim>\<open>d.strftime('%Y-%m-%d')\<close>.
\<close>

record env =
  to_float :: "string \<Rightarrow> real option"
  to_date :: "string \<Rightarrow> date option"
  today :: date
  current_user :: nat
  format_2f :: "real \<Rightarrow> string"
  strftime :: "date \<Rightarrow> string"

text \<open>
  The local variables of the loop in \<^verbatim>\<open>import_data\<close>. \<open>current_bill\<close> refers to
  the bill object by its id; an entry \<open>n\<close> of \<open>errors\<close> stands for the message
  \<^verbatim>\<open>Row n: ...\<close>.
\<close>

record import_state =
  bills_created :: nat
  imported_count :: nat
  errors :: "nat list"
  current_bill :: "nat option"
  current_bill_key :: "string option"
  db :: store

definition next_id :: "bill list \<Rightarrow> nat" where
  "next_id bs = Suc (fold max (map b_id bs) 0)"

text \<open>
  \<^verbatim>\<open>Bill()\<close>, the three assignments, \<^verbatim>\<open>db.session.add\<close> and
  \<^verbatim>\<open>db.session.flush()\<close>, which gives the bill its id and the column default 0.0.
\<close>

definition new_bill :: "env \<Rightarrow> string \<Rightarrow> date \<Rightarrow> store \<Rightarrow> bill" where
  "new_bill e number d s =
     \<lparr>b_id = next_id (bills s),
      bill_number = (if number \<noteq> [] then Some number else None),
      purchase_date = d,
      total_amount = 0,
      user_id = current_user e\<rparr>"

definition add_bill_row :: "bill \<Rightarrow> store \<Rightarrow> store" where
  "add_bill_row b s = s\<lparr>bills := bills s @ [b]\<rparr>"

definition add_fertilizer_row :: "fertilizer \<Rightarrow> store \<Rightarrow> store" where
  "add_fertilizer_row f s = s\<lparr>fertilizers := fertilizers s @ [f]\<rparr>"

text \<open>Lines 1215 to 1226: start a new bill when the grouping key changes.\<close>

definition start_bill :: "env \<Rightarrow> string \<Rightarrow> date \<Rightarrow> string \<Rightarrow> import_state \<Rightarrow> import_state" where
  "start_bill e number d bill_key st =
     (if current_bill_key st \<noteq> Some bill_key then
        let s1 = (case current_bill st of Some i \<Rightarrow> recompute i (db st) | None \<Rightarrow> db st);
            b = new_bill e number d s1
        in st\<lparr>bills_created := bills_created st + 1,
              current_bill := Some (b_id b),
              current_bill_key := Some bill_key,
              db := add_bill_row b s1\<rparr>
      else st)"

text \<open>Lines 1229 to 1237: add the line item when its name is not empty.\<close>

definition add_item :: "string \<Rightarrow> string \<Rightarrow> real \<Rightarrow> import_state \<Rightarrow> import_state" where
  "add_item name cat p st =
     (if name \<noteq> [] then
        let f = \<lparr>f_name = name, price = p, category = cat,
                 bill_id = (case current_bill st of
                              Some i \<Rightarrow> if i \<noteq> 0 then Some i else None
                            | None \<Rightarrow> None)\<rparr>
        in st\<lparr>imported_count := imported_count st + 1, db := add_fertilizer_row f (db st)\<rparr>
      else st)"

text \<open>
  The body of the loop for the row numbered \<open>row_num\<close>. The only statement that can
  raise \<^verbatim>\<open>ValueError\<close> or \<^verbatim>\<open>IndexError\<close> is the conversion of the price, which runs
  before anything is changed.
\<close>

definition import_row :: "env \<Rightarrow> import_state \<Rightarrow> nat \<Rightarrow> string list \<Rightarrow> import_state" where
  "import_row e st row_num row =
     (if length row \<ge> 4 then
        let purchase_date_str = strip (row ! 0);
            number = strip (row ! 1);
            name = strip (row ! 2);
            cat = (if strip (row ! 3) \<in> set (map fst FERTILIZER_CATEGORIES)
                   then strip (row ! 3) else ''Urea'')
        in case (if length row > 4 then to_float e (clean_price (row ! 4)) else Some 0) of
             None \<Rightarrow> st\<lparr>errors := errors st @ [row_num]\<rparr>
           | Some p \<Rightarrow>
               let d = (case to_date e purchase_date_str of Some d \<Rightarrow> d | None \<Rightarrow> today e);
                   bill_key = isoformat d @ ''_'' @ number
               in add_item name cat p (start_bill e number d bill_key st)
      else st)"

fun import_rows :: "env \<Rightarrow> import_state \<Rightarrow> nat \<Rightarrow> string list list \<Rightarrow> import_state" where
  "import_rows e st n [] = st"
| "import_rows e st n (row # rows) = import_rows e (import_row e st n row) (Suc n) rows"

definition initial :: "store \<Rightarrow> import_state" where
  "initial s = \<lparr>bills_created = 0, imported_count = 0, errors = [], current_bill = None,
                current_bill_key = None, db = s\<rparr>"

text \<open>Lines 1242 to 1244: the total of the last bill.\<close>

definition finish :: "import_state \<Rightarrow> import_state" where
  "finish st = (case current_bill st of Some i \<Rightarrow> st\<lparr>db := recompute i (db st)\<rparr> | None \<Rightarrow> st)"

text \<open>
  The body of \<^verbatim>\<open>import_data\<close> up to the commit: the header row is skipped, the
  data rows are numbered from 2, the last bill gets its total. The result is the
  state of the session and of the counters before \<^verbatim>\<open>db.session.commit()\<close>.
\<close>

definition import_batch :: "env \<Rightarrow> store \<Rightarrow> string list list \<Rightarrow> import_state" where
  "import_batch e s csv_input = finish (import_rows e (initial s) 2 (drop 1 csv_input))"

text \<open>
  How the database answers the request. The rows that \<^verbatim>\<open>db.session.flush()\<close> sends
  belong to the open transaction of the session and become part of the database only
  when \<^verbatim>\<open>db.session.commit()\<close> succeeds; this behaviour of the session is taken from
  the library, it is not derived from the source. \<open>Commit_ok\<close> is a request
  whose flushes and commit succeed. \<open>Commit_raises\<close> is an exception of the commit,
  which \<^verbatim>\<open>import_data\<close> answers with \<^verbatim>\<open>db.session.rollback()\<close>. \<open>Flush_raises\<close>
  is a database exception inside the loop: it is not a \<^verbatim>\<open>ValueError\<close> or
  \<^verbatim>\<open>IndexError\<close>, so it leaves \<^verbatim>\<open>import_data\<close> without a commit and without a
  rollback of its own.
\<close>

datatype outcome = Commit_ok | Commit_raises | Flush_raises

datatype flash =
  Imported nat nat
  | Row_errors nat
  | Import_failed

text \<open>
  \<^verbatim>\<open>import_data\<close>: the database after the request, and the messages flashed.
\<close>

definition import_data :: "env \<Rightarrow> outcome \<Rightarrow> store \<Rightarrow> string list list \<Rightarrow> store \<times> flash list" where
  "import_data e oc s csv_input =
     (let st = import_batch e s csv_input
      in case oc of
           Commit_ok \<Rightarrow>
             (db st,
              (if bills_created st > 0 then [Imported (bills_created st) (imported_count st)] else [])
              @ (if errors st \<noteq> [] then [Row_errors (length (errors st))] else []))
         | Commit_raises \<Rightarrow> (s, [Import_failed])
         | Flush_raises \<Rightarrow> (s, []))"

section \<open>A concrete runtime\<close>

text \<open>
  The runtime functions on the inputs that the examples below use: decimal literals
  for \<^verbatim>\<open>float\<close>, the format \<^verbatim>\<open>%Y-%m-%d\<close> for dates, and the two formats of the
  export. On these inputs they agree with Python; the general theorems hold for every
  \<open>env\<close> and do not depend on them.
\<close>

definition is_digit :: "char \<Rightarrow> bool" where
  "is_digit c = (let n = (of_char c :: nat) in 48 \<le> n \<and> n \<le> 57)"

definition nat_of_digits :: "string \<Rightarrow> nat" where
  "nat_of_digits s = foldl (\<lambda>a c. 10 * a + (of_char c - 48)) 0 s"

text \<open>
  \<^verbatim>\<open>float(s)\<close> for an optional sign, digits and an optional fraction, with at
  least one digit; every other string is rejected here.
\<close>

definition float_of_decimal :: "string \<Rightarrow> real option" where
  "float_of_decimal s =
     (let (neg, body) = (case s of
                           c # r \<Rightarrow> if c = CHR ''-'' then (True, r)
                                     else if c = CHR ''+'' then (False, r) else (False, s)
                         | [] \<Rightarrow> (False, s));
          ip = takeWhile is_digit body;
          rest = dropWhile is_digit body;
          fp = (case rest of
                  [] \<Rightarrow> Some []
                | c # r \<Rightarrow> if c = CHR ''.'' \<and> list_all is_digit r then Some r else None)
      in case fp of
           None \<Rightarrow> None
         | Some f \<Rightarrow>
             if ip = [] \<and> f = [] then None
             else Some ((if neg then - 1 else 1) *
                        (real (nat_of_digits ip) + real (nat_of_digits f) / 10 ^ length f)))"

fun split_on :: "char \<Rightarrow> string \<Rightarrow> string list" where
  "split_on c [] = [[]]"
| "split_on c (x # xs) =
     (if x = c then [] # split_on c xs
      else (case split_on c xs of w # ws \<Rightarrow> (x # w) # ws | [] \<Rightarrow> [[x]]))"

definition is_leap :: "nat \<Rightarrow> bool" where
  "is_leap y = (y mod 4 = 0 \<and> (y mod 100 \<noteq> 0 \<or> y mod 400 = 0))"

definition days_in_month :: "nat \<Rightarrow> nat \<Rightarrow> nat" where
  "days_in_month y m =
     (if m = 2 then (if is_leap y then 29 else 28)
      else if m = 4 \<or> m = 6 \<or> m = 9 \<or> m = 11 then 30 else 31)"

text \<open>
  \<^verbatim>\<open>datetime.strptime(s, '%Y-%m-%d').date()\<close>: four digits, one or two digits for
  the month, one or two digits (or a space and a digit) for the day, and a date that
  exists.
\<close>

definition strptime_ymd :: "string \<Rightarrow> date option" where
  "strptime_ymd s =
     (case split_on (CHR ''-'') s of
        [y, m, d0] \<Rightarrow>
          let d = (case d0 of [c, c'] \<Rightarrow> if c = CHR '' '' then [c'] else d0 | _ \<Rightarrow> d0);
              Y = nat_of_digits y; M = nat_of_digits m; D = nat_of_digits d
          in if length y = 4 \<and> list_all is_digit y
                \<and> (length m = 1 \<or> length m = 2) \<and> list_all is_digit m
                \<and> (length d = 1 \<or> length d = 2) \<and> list_all is_digit d
                \<and> 1 \<le> Y \<and> 1 \<le> M \<and> M \<le> 12 \<and> 1 \<le> D \<and> D \<le> days_in_month Y M
             then Some \<lparr>year = Y, month = M, day = D\<rparr>
             else None
      | _ \<Rightarrow> None)"

text \<open>\<^verbatim>\<open>str(n)\<close> for a natural number.\<close>

fun digits_upto :: "nat \<Rightarrow> nat \<Rightarrow> string" where
  "digits_upto 0 n = []"
| "digits_upto (Suc k) n = (if n < 10 then [] else digits_upto k (n div 10)) @ [digit_char n]"

definition str_nat :: "nat \<Rightarrow> string" where
  "str_nat n = digits_upto (Suc n) n"

text \<open>
  \<^verbatim>\<open>f'{x:.2f}'\<close> on an exact amount: round to hundredths, ties to even, a minus
  sign for a negative amount.
\<close>

definition round_half_even :: "real \<Rightarrow> nat" where
  "round_half_even x =
     (let f = nat \<lfloor>x\<rfloor>; r = x - real f
      in if r < 1 / 2 then f else if r > 1 / 2 then f + 1 else if even f then f else f + 1)"

definition format_2f_exact :: "real \<Rightarrow> string" where
  "format_2f_exact x =
     (let n = round_half_even (\<bar>x\<bar> * 100)
      in (if x < 0 then ''-'' else []) @ str_nat (n div 100) @ ''.'' @ zero_padded 2 (n mod 100))"

definition std_env :: "date \<Rightarrow> nat \<Rightarrow> env" where
  "std_env now uid =
     \<lparr>to_float = float_of_decimal, to_date = strptime_ymd, today = now, current_user = uid,
      format_2f = format_2f_exact, strftime = isoformat\<rparr>"

definition empty_store :: store where
  "empty_store = \<lparr>bills = [], fertilizers = []\<rparr>"

section \<open>Dashboard rollup\<close>

text \<open>
  The part of \<^verbatim>\<open>index\<close> that computes the figures of the dashboard, as functions of
  the three query results: the user's expenses, the user's bills and the user's active
  fields. Of an \<^verbatim>\<open>Expense\<close> the rollup reads \<^verbatim>\<open>category\<close> and \<^verbatim>\<open>total_amount\<close>
  (here \<open>e_category\<close> and \<open>e_total_amount\<close>), of a \<^verbatim>\<open>Field\<close> the nullable
  \<^verbatim>\<open>area_acres\<close>.
\<close>

record expense =
  e_category :: string
  e_total_amount :: real

record field =
  area_acres :: "real option"

datatype py_error = ZeroDivisionError

definition total_expenses :: "expense list \<Rightarrow> bill list \<Rightarrow> real" where
  "total_expenses expenses bs =
     (let total_comprehensive_expenses = py_sum (map e_total_amount expenses);
          total_bill_expenses = py_sum (map total_amount bs)
      in total_comprehensive_expenses + total_bill_expenses)"

text \<open>
  \<^verbatim>\<open>sum(field.area_acres for field in user_fields if field.area_acres)\<close>: a missing
  area and the area 0.0 are skipped.
\<close>

definition total_acres :: "field list \<Rightarrow> real" where
  "total_acres user_fields =
     py_sum (map (\<lambda>f. case area_acres f of Some a \<Rightarrow> a | None \<Rightarrow> 0)
               (filter (\<lambda>f. case area_acres f of Some a \<Rightarrow> a \<noteq> 0 | None \<Rightarrow> False) user_fields))"

text \<open>Python's \<^verbatim>\<open>/\<close> raises \<^verbatim>\<open>ZeroDivisionError\<close> when the divisor is zero.\<close>

definition truediv :: "real \<Rightarrow> real \<Rightarrow> py_error + real" where
  "truediv a b = (if b = 0 then Inl ZeroDivisionError else Inr (a / b))"

text \<open>\<^verbatim>\<open>total_expenses / total_acres if total_acres > 0 else 0\<close>\<close>

definition cost_per_acre :: "real \<Rightarrow> real \<Rightarrow> py_error + real" where
  "cost_per_acre expenses_total acres = (if acres > 0 then truediv expenses_total acres else Inr 0)"

text \<open>
  What \<^verbatim>\<open>FieldForm\<close> lets \<^verbatim>\<open>add_field\<close> store in \<^verbatim>\<open>area_acres\<close>, the only
  place where the column is written: nothing (\<^verbatim>\<open>Optional()\<close>) or a number that
  passes \<^verbatim>\<open>NumberRange(min=0)\<close>.
\<close>

definition valid_area :: "real option \<Rightarrow> bool" where
  "valid_area a = (case a of None \<Rightarrow> True | Some x \<Rightarrow> x \<ge> 0)"

text \<open>The summed area of a list of fields, a field without area counting as 0.\<close>

definition summed_area :: "field list \<Rightarrow> real" where
  "summed_area fs = sum_list (map (\<lambda>f. case area_acres f of Some a \<Rightarrow> a | None \<Rightarrow> 0) fs)"












section \<open>Notions used in the statements\<close>

text \<open>
  The local variables that \<^verbatim>\<open>import_data\<close> computes from a row, as functions of the
  row; a row is accepted when it has at least 4 fields and its price converts.
\<close>

definition row_price :: "env \<Rightarrow> string list \<Rightarrow> real option" where
  "row_price e row = (if length row > 4 then to_float e (clean_price (row ! 4)) else Some 0)"

definition row_date :: "env \<Rightarrow> string list \<Rightarrow> date" where
  "row_date e row = (case to_date e (strip (row ! 0)) of Some d \<Rightarrow> d | None \<Rightarrow> today e)"

definition row_number :: "string list \<Rightarrow> string" where
  "row_number row = strip (row ! 1)"

definition row_name :: "string list \<Rightarrow> string" where
  "row_name row = strip (row ! 2)"

definition row_category :: "string list \<Rightarrow> string" where
  "row_category row =
     (if strip (row ! 3) \<in> set (map fst FERTILIZER_CATEGORIES) then strip (row ! 3) else ''Urea'')"

definition row_key :: "env \<Rightarrow> string list \<Rightarrow> string" where
  "row_key e row = isoformat (row_date e row) @ ''_'' @ row_number row"


definition consistent :: "store \<Rightarrow> bill \<Rightarrow> bool" where
  "consistent s b = (total_amount b = py_sum (map price (fertilizers_of s (b_id b))))"

definition created_bills :: "store \<Rightarrow> import_state \<Rightarrow> bill list" where
  "created_bills s st = drop (length (bills s)) (bills (db st))"

definition inv5 :: "store \<Rightarrow> import_state \<Rightarrow> bool" where
  "inv5 s0 st =
     (take (length (bills s0)) (bills (db st)) = bills s0
      \<and> list_all (\<lambda>b. next_id (bills s0) \<le> b_id b
                       \<and> (current_bill st = Some (b_id b) \<or> consistent (db st) b))
           (created_bills s0 st)
      \<and> (case current_bill st of None \<Rightarrow> True | Some c \<Rightarrow> next_id (bills s0) \<le> c))"

definition finalized :: "import_state \<Rightarrow> store" where
  "finalized st = (case current_bill st of Some i \<Rightarrow> recompute i (db st) | None \<Rightarrow> db st)"


text \<open>The bill of the session with a given id.\<close>

definition find_bill :: "store \<Rightarrow> nat \<Rightarrow> bill option" where
  "find_bill s i = find (\<lambda>b. b_id b = i) (bills s)"


text \<open>The grouping key under which a bill was created: its date and its number.\<close>

definition key_of_bill :: "bill \<Rightarrow> string" where
  "key_of_bill b = isoformat (purchase_date b) @ ''_'' @ (case bill_number b of Some n \<Rightarrow> n | None \<Rightarrow> [])"


section \<open>Properties\<close>

lemma py_sum_sum_list: "py_sum xs = sum_list xs"
proof -
  have "foldl (+) a xs = a + sum_list xs" for a :: real
    by (induction xs arbitrary: a) (simp_all add: add.assoc)
  from this [of 0] show ?thesis by (simp add: py_sum_def)
qed

text \<open>
  C1: after \<^verbatim>\<open>calculate_total\<close> the bill's total is the sum of the prices of its
  line items; it is 0 for a bill without line items and 0 when the line items cannot
  be read.
\<close>

theorem calculate_total_sum:
  "total_amount (calculate_total (Some fs) b) = sum_list (map price fs)
   \<and> total_amount (calculate_total (Some fs) b) = py_sum (map price fs)
   \<and> total_amount (calculate_total (Some []) b) = 0
   \<and> total_amount (calculate_total None b) = 0"
  by (simp add: calculate_total_def py_sum_sum_list)

lemma import_row_short: "length row < 4 \<Longrightarrow> import_row e st n row = st"
  by (simp add: import_row_def)

text \<open>
  C4: importing the two rows for bill \<^verbatim>\<open>BILL-001\<close> of 2025-01-15 (after any header row)
  into an empty store creates exactly one bill, with total 300.00, and exactly two line
  items, both attached to that bill.
\<close>

theorem import_two_rows_one_bill:
  "import_batch (std_env now uid) empty_store
     [h, [''2025-01-15'', ''BILL-001'', ''Urea A'', ''Urea'', ''100.00''],
         [''2025-01-15'', ''BILL-001'', ''DAP B'', ''DAP'', ''200.00'']]
   = \<lparr>bills_created = 1, imported_count = 2, errors = [], current_bill = Some 1,
      current_bill_key = Some ''2025-01-15_BILL-001'',
      db = \<lparr>bills = [\<lparr>b_id = 1, bill_number = Some ''BILL-001'',
                       purchase_date = \<lparr>year = 2025, month = 1, day = 15\<rparr>,
                       total_amount = 300, user_id = uid\<rparr>],
             fertilizers = [\<lparr>f_name = ''Urea A'', price = 100, category = ''Urea'', bill_id = Some 1\<rparr>,
                            \<lparr>f_name = ''DAP B'', price = 200, category = ''DAP'', bill_id = Some 1\<rparr>]\<rparr>\<rparr>"
  by code_simp

text \<open>
  C8: a data row with fewer than 4 fields is skipped silently: the state of the import
  (error list, counters, current bill and grouping key, bills and line items) is the
  same after the row as before it, and the import goes on with the next row.
\<close>

theorem short_row_skipped:
  "length row < 4 \<Longrightarrow>
     import_row e st n row = st
     \<and> import_rows e st n (row # rest) = import_rows e st (Suc n) rest"
  by (simp add: import_row_short)

theorem short_row_skipped_witness:
  "length [''2025-01-15'', ''BILL-001''] < 4
   \<and> import_row (std_env \<lparr>year = 2025, month = 6, day = 1\<rparr> 1) (initial empty_store) 2
         [''2025-01-15'', ''BILL-001''] = initial empty_store
   \<and> import_rows (std_env \<lparr>year = 2025, month = 6, day = 1\<rparr> 1) (initial empty_store) 2
         [[''2025-01-15'', ''BILL-001''], [''2025-01-15'', ''BILL-001'', ''Urea A'', ''Urea'', ''100.00'']]
       = import_rows (std_env \<lparr>year = 2025, month = 6, day = 1\<rparr> 1) (initial empty_store) 3
         [[''2025-01-15'', ''BILL-001'', ''Urea A'', ''Urea'', ''100.00'']]"
  using short_row_skipped [of "[''2025-01-15'', ''BILL-001'']"
      "std_env \<lparr>year = 2025, month = 6, day = 1\<rparr> 1" "initial empty_store" 2
      "[[''2025-01-15'', ''BILL-001'', ''Urea A'', ''Urea'', ''100.00'']]"]
  by simp

text \<open>
  C10: an import can persist a bill without line items. The second data row has four
  fields, a grouping key different from the first row's, and a name that is empty after
  trimming: it starts and counts bill 2 and adds no line item, so the committed database
  holds bill 2 with no line items and total 0.
\<close>

theorem import_persists_empty_bill:
  "import_data (std_env now uid) Commit_ok empty_store
     [h, [''2025-01-15'', ''BILL-001'', ''Urea A'', ''Urea'', ''100.00''],
         [''2025-01-15'', ''BILL-002'', ''   '', ''Urea'']]
   = (\<lparr>bills = [\<lparr>b_id = 1, bill_number = Some ''BILL-001'',
                    purchase_date = \<lparr>year = 2025, month = 1, day = 15\<rparr>,
                    total_amount = 100, user_id = uid\<rparr>,
                  \<lparr>b_id = 2, bill_number = Some ''BILL-002'',
                    purchase_date = \<lparr>year = 2025, month = 1, day = 15\<rparr>,
                    total_amount = 0, user_id = uid\<rparr>],
        fertilizers = [\<lparr>f_name = ''Urea A'', price = 100, category = ''Urea'', bill_id = Some 1\<rparr>]\<rparr>,
      [Imported 2 1])"
  by code_simp

lemma import_row_accepted:
  "length row \<ge> 4 \<Longrightarrow> row_price e row = Some p \<Longrightarrow>
   import_row e st n row
   = add_item (row_name row) (row_category row) p
       (start_bill e (row_number row) (row_date e row) (row_key e row) st)"
  by (simp add: import_row_def row_price_def row_date_def row_number_def row_name_def
      row_category_def row_key_def Let_def)

lemma import_row_error:
  "length row \<ge> 4 \<Longrightarrow> row_price e row = None \<Longrightarrow>
   import_row e st n row = st\<lparr>errors := errors st @ [n]\<rparr>"
  by (simp add: import_row_def row_price_def Let_def)

lemma import_row_cases:
  obtains (short) "length row < 4" "import_row e st n row = st"
  | (error) "length row \<ge> 4" "row_price e row = None"
      "import_row e st n row = st\<lparr>errors := errors st @ [n]\<rparr>"
  | (ok) p where "length row \<ge> 4" "row_price e row = Some p"
      "import_row e st n row
       = add_item (row_name row) (row_category row) p
           (start_bill e (row_number row) (row_date e row) (row_key e row) st)"
proof (cases "length row < 4")
  case True
  then show ?thesis using short import_row_short by blast
next
  case False
  then have l: "length row \<ge> 4" by simp
  show ?thesis
  proof (cases "row_price e row")
    case None
    then show ?thesis using error l import_row_error by blast
  next
    case (Some p)
    then show ?thesis using ok l import_row_accepted by blast
  qed
qed

lemma fold_max_ge: "(a::nat) \<le> fold max xs a"
proof (induction xs arbitrary: a)
  case Nil
  show ?case by simp
next
  case (Cons x xs)
  have "a \<le> max x a" by simp
  also have "\<dots> \<le> fold max xs (max x a)" by (rule Cons.IH)
  finally show ?case by simp
qed

lemma fold_max_mem: "x \<in> set xs \<Longrightarrow> (x::nat) \<le> fold max xs a"
proof (induction xs arbitrary: a)
  case Nil
  then show ?case by simp
next
  case (Cons y ys)
  show ?case
  proof (cases "x = y")
    case True
    have "x \<le> max y a" using True by simp
    also have "\<dots> \<le> fold max ys (max y a)" by (rule fold_max_ge)
    finally show ?thesis by simp
  next
    case False
    with Cons.prems have "x \<in> set ys" by simp
    then show ?thesis using Cons.IH by simp
  qed
qed

lemma next_id_gt: "b \<in> set bs \<Longrightarrow> b_id b < next_id bs"
  using fold_max_mem [of "b_id b" "map b_id bs" 0] by (simp add: next_id_def)


lemma fold_max_append_le: "fold max xs (a::nat) \<le> fold max (xs @ ys) a"
  by (simp add: fold_max_ge)

lemma next_id_append: "next_id bs \<le> next_id (bs @ cs)"
  by (simp add: next_id_def fold_max_ge)

lemma next_id_cong: "map b_id bs = map b_id cs \<Longrightarrow> next_id bs = next_id cs"
  by (simp add: next_id_def)

lemma recompute_ids [simp]: "map b_id (bills (recompute i s)) = map b_id (bills s)"
  by (simp add: recompute_def calculate_total_def comp_def)

lemma recompute_fertilizers [simp]: "fertilizers (recompute i s) = fertilizers s"
  by (simp add: recompute_def)

lemma recompute_fertilizers_of [simp]: "fertilizers_of (recompute i s) j = fertilizers_of s j"
  by (simp add: fertilizers_of_def)

lemma recompute_length [simp]: "length (bills (recompute i s)) = length (bills s)"
  by (simp add: recompute_def)

lemma recompute_next_id [simp]: "next_id (bills (recompute i s)) = next_id (bills s)"
  by (rule next_id_cong) simp

lemma consistent_cong:
  "fertilizers_of s' (b_id b) = fertilizers_of s (b_id b) \<Longrightarrow> consistent s' b = consistent s b"
  by (simp add: consistent_def)

lemma consistent_calculate_total:
  "consistent s (calculate_total (Some (fertilizers_of s (b_id b))) b)"
  by (simp add: consistent_def calculate_total_def)

lemma calculate_total_id [simp]: "b_id (calculate_total fs b) = b_id b"
  by (simp add: calculate_total_def split: option.splits)

lemma recompute_old:
  assumes "take n (bills s) = bs0" and "next_id bs0 \<le> c"
  shows "take n (bills (recompute c s)) = bs0"
proof -
  have "\<forall>b \<in> set bs0. b_id b \<noteq> c"
    using assms(2) next_id_gt by fastforce
  then have "map (\<lambda>b. if b_id b = c then calculate_total (Some (fertilizers_of s c)) b else b) bs0 = bs0"
    by (simp add: map_idI)
  then show ?thesis
    using assms(1) by (auto simp: recompute_def take_map)
qed

lemma recompute_created:
  "drop n (bills (recompute c s))
   = map (\<lambda>b. if b_id b = c then calculate_total (Some (fertilizers_of s c)) b else b)
       (drop n (bills s))"
  by (simp add: recompute_def drop_map)

lemma inv5_initial: "inv5 s (initial s)"
  by (simp add: inv5_def initial_def created_bills_def)

lemma inv5_length: "inv5 s0 st \<Longrightarrow> length (bills s0) \<le> length (bills (db st))"
  by (metis inv5_def length_take min.cobounded2 min.commute)

lemma inv5_next_id: 
  assumes "inv5 s0 st" shows "next_id (bills s0) \<le> next_id (bills (db st))"
proof -
  have "bills (db st) = bills s0 @ drop (length (bills s0)) (bills (db st))"
    using assms by (metis append_take_drop_id inv5_def)
  then show ?thesis using next_id_append by metis
qed

lemma inv5_finalized:
  assumes "inv5 s0 st"
  shows "take (length (bills s0)) (bills (finalized st)) = bills s0"
    and "list_all (\<lambda>b. next_id (bills s0) \<le> b_id b \<and> consistent (finalized st) b)
           (drop (length (bills s0)) (bills (finalized st)))"
    and "fertilizers (finalized st) = fertilizers (db st)"
    and "next_id (bills (finalized st)) = next_id (bills (db st))"
proof -
  show "take (length (bills s0)) (bills (finalized st)) = bills s0"
    using assms by (auto simp: finalized_def inv5_def split: option.splits intro: recompute_old)
  show "list_all (\<lambda>b. next_id (bills s0) \<le> b_id b \<and> consistent (finalized st) b)
           (drop (length (bills s0)) (bills (finalized st)))"
  proof (cases "current_bill st")
    case None
    then show ?thesis using assms by (simp add: finalized_def inv5_def created_bills_def)
  next
    case (Some c)
    have "list_all (\<lambda>b. next_id (bills s0) \<le> b_id b \<and> (c = b_id b \<or> consistent (db st) b))
            (drop (length (bills s0)) (bills (db st)))"
      using assms Some by (simp add: inv5_def created_bills_def)
    then show ?thesis
      using Some
      by (auto simp: finalized_def recompute_created list_all_iff consistent_calculate_total
          cong: consistent_cong)
  qed
  show "fertilizers (finalized st) = fertilizers (db st)"
    by (simp add: finalized_def split: option.splits)
  show "next_id (bills (finalized st)) = next_id (bills (db st))"
    by (simp add: finalized_def split: option.splits)
qed

lemma start_bill_same:
  "current_bill_key st = Some k \<Longrightarrow> start_bill e number d k st = st"
  by (simp add: start_bill_def)

lemma start_bill_new:
  "current_bill_key st \<noteq> Some k \<Longrightarrow>
   start_bill e number d k st
   = st\<lparr>bills_created := bills_created st + 1,
        current_bill := Some (next_id (bills (db st))),
        current_bill_key := Some k,
        db := add_bill_row (new_bill e number d (finalized st)) (finalized st)\<rparr>"
  by (auto simp: start_bill_def finalized_def Let_def new_bill_def split: option.splits)

lemma new_bill_id [simp]: "b_id (new_bill e number d s) = next_id (bills s)"
  by (simp add: new_bill_def)

lemma new_bill_total [simp]: "total_amount (new_bill e number d s) = 0"
  by (simp add: new_bill_def)

lemma inv5_start_bill:
  assumes "inv5 s0 st"
  shows "inv5 s0 (start_bill e number d k st)"
proof (cases "current_bill_key st = Some k")
  case True
  then show ?thesis using assms by (simp add: start_bill_same)
next
  case False
  let ?n = "length (bills s0)"
  let ?f = "finalized st"
  note fin = inv5_finalized [OF assms]
  have len: "?n \<le> length (bills ?f)"
    using fin(1) by (metis length_take min.cobounded2 min.commute)
  have nid: "next_id (bills s0) \<le> next_id (bills (db st))"
    by (rule inv5_next_id [OF assms])
  have fo: "fertilizers_of (add_bill_row b ?f) i = fertilizers_of ?f i" for b i
    by (simp add: fertilizers_of_def add_bill_row_def)
  have "list_all (\<lambda>b. next_id (bills s0) \<le> b_id b
                       \<and> (next_id (bills (db st)) = b_id b
                          \<or> consistent (add_bill_row (new_bill e number d ?f) ?f) b))
          (drop ?n (bills ?f))"
    using fin(2) by (simp add: list_all_iff consistent_def fo)
  then show ?thesis
    using False len nid fin(1) fin(4)
    by (simp add: start_bill_new inv5_def created_bills_def add_bill_row_def)
qed

lemma inv5_add_item:
  assumes "inv5 s0 st"
  shows "inv5 s0 (add_item name cat p st)"
proof (cases "name = []")
  case True
  then show ?thesis using assms by (simp add: add_item_def)
next
  case False
  define f where "f = \<lparr>f_name = name, price = p, category = cat,
                 bill_id = (case current_bill st of
                              Some i \<Rightarrow> if i \<noteq> 0 then Some i else None
                            | None \<Rightarrow> None)\<rparr>"
  have eq: "add_item name cat p st
            = st\<lparr>imported_count := imported_count st + 1, db := add_fertilizer_row f (db st)\<rparr>"
    using False by (simp add: add_item_def f_def Let_def)
  have fo: "current_bill st \<noteq> Some i \<Longrightarrow>
            fertilizers_of (add_fertilizer_row f (db st)) i = fertilizers_of (db st) i" for i
    by (auto simp: fertilizers_of_def add_fertilizer_row_def f_def split: option.splits)
  have "list_all (\<lambda>b. next_id (bills s0) \<le> b_id b
                       \<and> (current_bill st = Some (b_id b)
                          \<or> consistent (add_fertilizer_row f (db st)) b))
          (created_bills s0 st)"
    unfolding list_all_iff
  proof
    fix b assume b: "b \<in> set (created_bills s0 st)"
    with assms have 1: "next_id (bills s0) \<le> b_id b"
      and 2: "current_bill st = Some (b_id b) \<or> consistent (db st) b"
      by (auto simp: inv5_def list_all_iff)
    show "next_id (bills s0) \<le> b_id b
          \<and> (current_bill st = Some (b_id b) \<or> consistent (add_fertilizer_row f (db st)) b)"
    proof (cases "current_bill st = Some (b_id b)")
      case True
      then show ?thesis using 1 by simp
    next
      case False
      with 2 have "consistent (db st) b" by simp
      with fo [OF False] have "consistent (add_fertilizer_row f (db st)) b"
        by (simp add: consistent_def)
      then show ?thesis using 1 by simp
    qed
  qed
  then show ?thesis
    using assms by (simp add: eq inv5_def created_bills_def add_fertilizer_row_def)
qed

lemma inv5_import_row: "inv5 s0 st \<Longrightarrow> inv5 s0 (import_row e st n row)"
proof (cases rule: import_row_cases [of row e st n])
  case short
  assume "inv5 s0 st"
  then show ?thesis using short by simp
next
  case error
  assume "inv5 s0 st"
  then show ?thesis using error by (simp add: inv5_def created_bills_def)
next
  case (ok p)
  assume "inv5 s0 st"
  then show ?thesis using ok by (simp add: inv5_add_item inv5_start_bill)
qed

lemma inv5_import_rows: "inv5 s0 st \<Longrightarrow> inv5 s0 (import_rows e st n rows)"
  by (induction rows arbitrary: st n) (simp_all add: inv5_import_row)

lemma finish_finalized: "finish st = st\<lparr>db := finalized st\<rparr>"
  by (simp add: finish_def finalized_def split: option.splits)

lemma import_batch_consistent:
  "take (length (bills s)) (bills (db (import_batch e s csv_input))) = bills s
   \<and> list_all (consistent (db (import_batch e s csv_input)))
       (created_bills s (import_batch e s csv_input))"
proof -
  let ?st = "import_rows e (initial s) 2 (drop 1 csv_input)"
  have "inv5 s ?st" by (intro inv5_import_rows inv5_initial)
  from inv5_finalized(1,2) [OF this] show ?thesis
    by (simp add: import_batch_def finish_finalized created_bills_def list_all_iff)
qed

lemma import_rows_count:
  "length (bills (db (import_rows e st n rows))) - bills_created (import_rows e st n rows)
   = length (bills (db st)) - bills_created st
   \<and> bills_created (import_rows e st n rows) \<le> length (bills (db (import_rows e st n rows)))"
  if "bills_created st \<le> length (bills (db st))"
  using that
proof (induction rows arbitrary: st n)
  case Nil
  then show ?case by simp
next
  case (Cons row rows)
  have step: "length (bills (db (import_row e st n row))) - bills_created (import_row e st n row)
              = length (bills (db st)) - bills_created st
              \<and> bills_created (import_row e st n row) \<le> length (bills (db (import_row e st n row)))"
  proof (cases rule: import_row_cases [of row e st n])
    case short
    then show ?thesis using Cons.prems by simp
  next
    case error
    then show ?thesis using Cons.prems by simp
  next
    case (ok p)
    have a: "bills (db (add_item nm c q t)) = bills (db t)" "bills_created (add_item nm c q t) = bills_created t"
      for nm c q t
      by (simp_all add: add_item_def add_fertilizer_row_def Let_def)
    show ?thesis
    proof (cases "current_bill_key st = Some (row_key e row)")
      case True
      then show ?thesis using ok Cons.prems by (simp add: a start_bill_same)
    next
      case False
      have "length (bills (finalized st)) = length (bills (db st))"
        by (simp add: finalized_def split: option.splits)
      then show ?thesis
        using ok Cons.prems False by (simp add: a start_bill_new add_bill_row_def)
    qed
  qed
  from Cons.IH [of "import_row e st n row" "Suc n"] step show ?case by simp
qed

lemma import_batch_count:
  "bills_created (import_batch e s csv_input) = length (created_bills s (import_batch e s csv_input))"
proof -
  let ?st = "import_rows e (initial s) 2 (drop 1 csv_input)"
  have "length (bills (db ?st)) - bills_created ?st = length (bills s)
        \<and> bills_created ?st \<le> length (bills (db ?st))"
    using import_rows_count [of "initial s" e 2 "drop 1 csv_input"] by (simp add: initial_def)
  moreover have "length (bills (finalized ?st)) = length (bills (db ?st))"
    by (simp add: finalized_def split: option.splits)
  ultimately have "bills_created ?st = length (bills (finalized ?st)) - length (bills s)"
    by arith
  then show ?thesis
    by (simp add: import_batch_def finish_finalized created_bills_def)
qed

text \<open>
  C5: when the import has read the last row, every bill it created, the last one
  included, has a total equal to the sum of the prices of its line items; the counter
  \<open>bills_created\<close> counts exactly these bills, and the bills that were in the store
  before are unchanged.
\<close>

theorem import_totals_consistent:
  "list_all (\<lambda>b. total_amount b
                    = sum_list (map price (fertilizers_of (db (import_batch e s csv_input)) (b_id b))))
     (created_bills s (import_batch e s csv_input))
   \<and> length (created_bills s (import_batch e s csv_input)) = bills_created (import_batch e s csv_input)
   \<and> bills (db (import_batch e s csv_input)) = bills s @ created_bills s (import_batch e s csv_input)"
proof -
  let ?r = "import_batch e s csv_input"
  have "take (length (bills s)) (bills (db ?r)) = bills s"
    using import_batch_consistent by blast
  then have "bills (db ?r) = bills s @ created_bills s ?r"
    unfolding created_bills_def by (metis append_take_drop_id)
  moreover have "list_all (consistent (db ?r)) (created_bills s ?r)"
    using import_batch_consistent by blast
  then have "list_all (\<lambda>b. total_amount b = sum_list (map price (fertilizers_of (db ?r) (b_id b))))
               (created_bills s ?r)"
    by (simp add: list_all_iff consistent_def py_sum_sum_list)
  moreover have "length (created_bills s ?r) = bills_created ?r"
    by (simp add: import_batch_count)
  ultimately show ?thesis by blast
qed




lemma key_of_bill_calculate_total [simp]:
  "key_of_bill (calculate_total fs b) = key_of_bill b"
  by (cases fs) (simp_all add: key_of_bill_def calculate_total_def)

lemma find_bill_id: "find_bill s c = Some b \<Longrightarrow> b_id b = c"
  by (auto simp: find_bill_def find_Some_iff)








lemma finalized_next_id [simp]: "next_id (bills (finalized st)) = next_id (bills (db st))"
  by (simp add: finalized_def split: option.splits)

lemma finalized_fertilizers [simp]: "fertilizers (finalized st) = fertilizers (db st)"
  by (simp add: finalized_def split: option.splits)





















lemma finish_fertilizers [simp]: "fertilizers (db (finish st)) = fertilizers (db st)"
  by (simp add: finish_finalized)



lemma total_acres_summed: "total_acres fs = summed_area fs"
proof -
  have "sum_list (map (\<lambda>f. case area_acres f of Some a \<Rightarrow> a | None \<Rightarrow> 0)
               (filter (\<lambda>f. case area_acres f of Some a \<Rightarrow> a \<noteq> 0 | None \<Rightarrow> False) fs))
        = sum_list (map (\<lambda>f. case area_acres f of Some a \<Rightarrow> a | None \<Rightarrow> 0) fs)"
    by (induction fs) (auto split: option.splits)
  then show ?thesis by (simp add: total_acres_def summed_area_def py_sum_sum_list)
qed

lemma summed_area_nonneg: "list_all (\<lambda>f. valid_area (area_acres f)) fs \<Longrightarrow> 0 \<le> summed_area fs"
  unfolding summed_area_def
  by (induction fs) (auto simp: valid_area_def split: option.splits)

text \<open>
  C7: \<^verbatim>\<open>cost_per_acre\<close> never raises \<^verbatim>\<open>ZeroDivisionError\<close>; \<^verbatim>\<open>total_acres\<close> is the
  summed area of the user's active fields; and for areas that \<^verbatim>\<open>FieldForm\<close> accepts,
  \<^verbatim>\<open>cost_per_acre\<close> is 0 when that sum is 0 and \<^verbatim>\<open>total_expenses\<close> divided by the
  sum otherwise.
\<close>

theorem cost_per_acre_safe:
  "cost_per_acre (total_expenses expenses bs) (total_acres user_fields) \<noteq> Inl ZeroDivisionError
   \<and> total_acres user_fields = summed_area user_fields
   \<and> (list_all (\<lambda>f. valid_area (area_acres f)) user_fields \<longrightarrow>
        cost_per_acre (total_expenses expenses bs) (total_acres user_fields)
        = (if summed_area user_fields = 0 then Inr 0
           else Inr (total_expenses expenses bs / summed_area user_fields)))"
  using summed_area_nonneg [of user_fields]
  by (auto simp: cost_per_acre_def truediv_def total_acres_summed)

theorem cost_per_acre_safe_witness:
  "list_all (\<lambda>f. valid_area (area_acres f))
     [\<lparr>area_acres = Some 2\<rparr>, \<lparr>area_acres = None\<rparr>, \<lparr>area_acres = Some 3\<rparr>]
   \<and> summed_area [\<lparr>area_acres = Some 2\<rparr>, \<lparr>area_acres = None\<rparr>, \<lparr>area_acres = Some 3\<rparr>] = 5
   \<and> cost_per_acre
        (total_expenses [\<lparr>e_category = ''seeds'', e_total_amount = 100\<rparr>]
           [\<lparr>b_id = 1, bill_number = None, purchase_date = \<lparr>year = 2025, month = 1, day = 15\<rparr>,
             total_amount = 50, user_id = 1\<rparr>])
        (total_acres [\<lparr>area_acres = Some 2\<rparr>, \<lparr>area_acres = None\<rparr>, \<lparr>area_acres = Some 3\<rparr>])
      = Inr 30
   \<and> list_all (\<lambda>f. valid_area (area_acres f)) [\<lparr>area_acres = Some 0\<rparr>, \<lparr>area_acres = None\<rparr>]
   \<and> summed_area [\<lparr>area_acres = Some 0\<rparr>, \<lparr>area_acres = None\<rparr>] = 0
   \<and> cost_per_acre
        (total_expenses [\<lparr>e_category = ''seeds'', e_total_amount = 100\<rparr>] [])
        (total_acres [\<lparr>area_acres = Some 0\<rparr>, \<lparr>area_acres = None\<rparr>])
      = Inr 0"
proof -
  let ?fs = "[\<lparr>area_acres = Some 2\<rparr>, \<lparr>area_acres = None\<rparr>, \<lparr>area_acres = Some 3\<rparr>]"
  let ?gs = "[\<lparr>area_acres = Some 0\<rparr>, \<lparr>area_acres = None\<rparr>]"
  let ?xs = "[\<lparr>e_category = ''seeds'', e_total_amount = 100\<rparr>]"
  let ?bs = "[\<lparr>b_id = 1, bill_number = None, purchase_date = \<lparr>year = 2025, month = 1, day = 15\<rparr>,
             total_amount = 50, user_id = 1\<rparr>]"
  have v: "list_all (\<lambda>f. valid_area (area_acres f)) ?fs" by (simp add: valid_area_def)
  have a: "summed_area ?fs = 5" by (simp add: summed_area_def)
  have t: "total_expenses ?xs ?bs = 150" by (simp add: total_expenses_def py_sum_def)
  have w: "list_all (\<lambda>f. valid_area (area_acres f)) ?gs" by (simp add: valid_area_def)
  have b: "summed_area ?gs = 0" by (simp add: summed_area_def)
  from cost_per_acre_safe [of ?xs ?bs ?fs] v
  have "cost_per_acre (total_expenses ?xs ?bs) (total_acres ?fs)
        = (if summed_area ?fs = 0 then Inr 0 else Inr (total_expenses ?xs ?bs / summed_area ?fs))"
    by blast
  with a t have 1: "cost_per_acre (total_expenses ?xs ?bs) (total_acres ?fs) = Inr 30" by simp
  from cost_per_acre_safe [of ?xs "[]" ?gs] w
  have "cost_per_acre (total_expenses ?xs []) (total_acres ?gs)
        = (if summed_area ?gs = 0 then Inr 0 else Inr (total_expenses ?xs [] / summed_area ?gs))"
    by blast
  with b have 2: "cost_per_acre (total_expenses ?xs []) (total_acres ?gs) = Inr 0" by simp
  from v a 1 w b 2 show ?thesis by (intro conjI)
qed



















end
